theory Spec2Isabelle
  imports Main
begin

section \<open>The Romulus terms service client (jujulib/terms.js)\<close>

text \<open>
  The client is one constructor, \<open>terms(url, bakery)\<close>, and one method,
  \<open>showTerms(name, revision, callback)\<close>. The method builds a request path, hands it
  to \<open>jujulib._makeRequest\<close> together with an inner \<open>handler\<close>, and the handler turns
  what the transport delivers into a call of the caller's callback. The request is
  asynchronous: a run of \<open>showTerms\<close> here is the call together with the continuations
  the transport goes on to invoke for it.
\<close>

subsection \<open>JavaScript values\<close>

text \<open>
  The values the client handles: what the caller passes as name and revision, and what
  the transport delivers as decoded JSON. They are data: primitives, arrays and plain
  objects, with no functions among their properties. Numbers are the integer-valued
  ones and \<open>NaN\<close>; \<open>-0\<close> is \<open>JNum 0\<close> (it is \<open>=== 0\<close>, falsy and printed as \<open>0\<close>). A
  \<open>JObj\<close> is a plain object as \<open>JSON.parse\<close> builds it, held as the list of its own
  properties (the first entry for a key is the property read). Strings are lists of
  code units.
\<close>

datatype jsval =
    JUndefined
  | JNull
  | JBool bool
  | JNaN
  | JNum int
  | JStr string
  | JArr "jsval list"
  | JObj "(string \<times> jsval) list"

datatype js_error = TypeError

text \<open>\<open>ToBoolean\<close>: what \<open>!x\<close> and \<open>a || b\<close> test.\<close>

fun to_boolean :: "jsval \<Rightarrow> bool" where
  "to_boolean JUndefined = False"
| "to_boolean JNull = False"
| "to_boolean (JBool b) = b"
| "to_boolean JNaN = False"
| "to_boolean (JNum n) = (n \<noteq> 0)"
| "to_boolean (JStr s) = (s \<noteq> [])"
| "to_boolean (JArr xs) = True"
| "to_boolean (JObj kvs) = True"

text \<open>
  What the host provides. \<open>Date.parse\<close> maps a string to a time value, a number of
  milliseconds since the epoch or \<open>NaN\<close> (\<open>None\<close>); what it accepts beyond the ISO
  format is left to the implementation. \<open>Number::toString\<close> prints an integer beyond
  the safe range with the shortest digits that read back as the same number, padded
  with zeros, and in exponent notation from \<open>1e21\<close>. Both are parameters here.
\<close>

type_synonym time_value = "int option"

record host =
  date_parse :: "string \<Rightarrow> time_value"
  large_number_to_string :: "int \<Rightarrow> string"

text \<open>
  The digits of an integer in the safe range, up to \<open>Number.MAX_SAFE_INTEGER\<close> in
  magnitude: there \<open>Number::toString\<close> prints the integer's own decimal digits.
\<close>

definition digit_char :: "nat \<Rightarrow> char" where
  "digit_char d = ''0123456789'' ! (d mod 10)"

fun show_nat :: "nat \<Rightarrow> string" where
  "show_nat n = (if n < 10 then [digit_char n] else show_nat (n div 10) @ [digit_char n])"

declare show_nat.simps [simp del]

definition show_int :: "int \<Rightarrow> string" where
  "show_int i = (if i < 0 then CHR ''-'' # show_nat (nat (- i)) else show_nat (nat i))"

definition number_to_string :: "host \<Rightarrow> int \<Rightarrow> string" where
  "number_to_string h n =
     (if \<bar>n\<bar> \<le> 9007199254740991 then show_int n else large_number_to_string h n)"

fun join :: "string \<Rightarrow> string list \<Rightarrow> string" where
  "join sep [] = []"
| "join sep [x] = x"
| "join sep (x # y # ys) = x @ sep @ join sep (y # ys)"

fun all_or_error :: "(js_error + 'a) list \<Rightarrow> js_error + 'a list" where
  "all_or_error [] = Inr []"
| "all_or_error (x # xs) =
     (case x of
        Inl e \<Rightarrow> Inl e
      | Inr v \<Rightarrow> (case all_or_error xs of Inl e \<Rightarrow> Inl e | Inr vs \<Rightarrow> Inr (v # vs)))"

text \<open>
  \<open>ToString\<close>, which string concatenation with \<open>+\<close> and \<open>Date.parse\<close> apply to their
  argument. An object is converted by its \<open>toString\<close>: a plain object inherits the one
  that prints \<open>[object Object]\<close>, but an own \<open>toString\<close> property shadows it, and as
  that is never a function here, the conversion finds nothing to call and throws a
  TypeError. An array prints its elements joined by commas, \<open>null\<close> and \<open>undefined\<close>
  elements as nothing, and throws if an element does.
\<close>

fun to_string :: "host \<Rightarrow> jsval \<Rightarrow> js_error + string" where
  "to_string h JUndefined = Inr ''undefined''"
| "to_string h JNull = Inr ''null''"
| "to_string h (JBool b) = Inr (if b then ''true'' else ''false'')"
| "to_string h JNaN = Inr ''NaN''"
| "to_string h (JNum n) = Inr (number_to_string h n)"
| "to_string h (JStr s) = Inr s"
| "to_string h (JArr xs) =
     (case all_or_error
             (map (\<lambda>x. if x = JUndefined \<or> x = JNull then Inr [] else to_string h x) xs) of
        Inl e \<Rightarrow> Inl e
      | Inr ss \<Rightarrow> Inr (join '','' ss))"
| "to_string h (JObj kvs) =
     (if map_of kvs ''toString'' = None then Inr ''[object Object]'' else Inl TypeError)"

text \<open>
  A property read \<open>v[k]\<close>, for the property names the client reads: \<open>length\<close>, \<open>0\<close>,
  \<open>created-on\<close>, \<open>name\<close>, \<open>title\<close>, \<open>revision\<close>, \<open>content\<close> (and \<open>Message\<close>, \<open>message\<close>
  in the request helper). Reading a property of \<open>null\<close> or \<open>undefined\<close> throws a
  TypeError; a property that is not there reads as \<open>undefined\<close>.
\<close>

definition field :: "(string \<times> jsval) list \<Rightarrow> string \<Rightarrow> jsval" where
  "field kvs k = (case map_of kvs k of None \<Rightarrow> JUndefined | Some v \<Rightarrow> v)"

text \<open>What a property read gives on a value that is neither \<open>null\<close> nor \<open>undefined\<close>.\<close>

fun property_of :: "jsval \<Rightarrow> string \<Rightarrow> jsval" where
  "property_of (JStr s) k =
     (if k = ''length'' then JNum (int (length s))
      else if k = ''0'' \<and> s \<noteq> [] then JStr [hd s]
      else JUndefined)"
| "property_of (JArr xs) k =
     (if k = ''length'' then JNum (int (length xs))
      else if k = ''0'' \<and> xs \<noteq> [] then hd xs
      else JUndefined)"
| "property_of (JObj kvs) k = field kvs k"
| "property_of v k = JUndefined"

definition get :: "jsval \<Rightarrow> string \<Rightarrow> js_error + jsval" where
  "get v k = (if v = JUndefined \<or> v = JNull then Inl TypeError else Inr (property_of v k))"

subsection \<open>Dates\<close>

text \<open>
  \<open>new Date(ms)\<close> keeps the time value if it is in the range of dates (\<open>TimeClip\<close>); a
  date whose time value is \<open>NaN\<close> is the invalid date.
\<close>

datatype js_date = Date time_value

fun new_Date :: "time_value \<Rightarrow> js_date" where
  "new_Date None = Date None"
| "new_Date (Some ms) = (if \<bar>ms\<bar> \<le> 8640000000000000 then Date (Some ms) else Date None)"

fun valid_date :: "js_date \<Rightarrow> bool" where
  "valid_date (Date None) = False"
| "valid_date (Date (Some ms)) = True"

subsection \<open>The constructor\<close>

definition termsAPIVersion :: string where
  "termsAPIVersion = ''v1''"

text \<open>
  \<open>url.replace(/\/?$/, '/')\<close>: the pattern is an optional slash followed by the end of
  the input, and without the \<open>g\<close> flag the leftmost match is replaced. Scanning from
  the left, the pattern matches at the last character when that is a slash, and
  otherwise only at the end, where it matches the empty string.
\<close>

fun replace_slash_at_end :: "string \<Rightarrow> string" where
  "replace_slash_at_end [] = ''/''"
| "replace_slash_at_end (c # cs) =
     (if c = CHR ''/'' \<and> cs = [] then ''/'' else c # replace_slash_at_end cs)"

text \<open>
  The transport (``bakery'') is an object with one method the client uses,
  \<open>sendGetRequest(path, success, failure)\<close>. What it does on the wire is its own; the
  client sees only which of the two continuations it invokes, in which order and with
  which response. That is what the model of a transport says: for a path, the
  continuations it goes on to invoke, each with the decoded JSON of the response text.
\<close>

datatype transport_event = Success jsval | Failure jsval

record bakery_object =
  sendGetRequest :: "string \<Rightarrow> transport_event list"

record terms_client =
  url :: string
  bakery :: bakery_object

text \<open>\<open>function terms(url, bakery)\<close>; the parameter \<open>url\<close> is \<open>base\<close> here.\<close>

definition terms :: "string \<Rightarrow> bakery_object \<Rightarrow> terms_client" where
  "terms base b = \<lparr> url = replace_slash_at_end base @ termsAPIVersion, bakery = b \<rparr>"

text \<open>
  The reading of ``the base URL'' in the specification: the argument without its
  trailing separator, if it has one.
\<close>

definition without_trailing_slash :: "string \<Rightarrow> string" where
  "without_trailing_slash s = (if s \<noteq> [] \<and> last s = CHR ''/'' then butlast s else s)"

subsection \<open>Effects\<close>

text \<open>
  What \<open>showTerms\<close> hands to its callback on success: the object literal of the
  handler.
\<close>

record terms_data =
  name :: jsval
  title :: jsval
  revision :: jsval
  content :: jsval
  createdAt :: js_date

text \<open>
  The state a call runs in: the client object the method is called on (\<open>this\<close>), the
  paths handed to the transport so far, and the caller's own state, which is all the
  caller's callback acts on. A callback is called with an error (or \<open>null\<close>) and the
  terms data, \<open>None\<close> standing for \<open>null\<close>.
\<close>

record 's world =
  self :: terms_client
  requests :: "string list"
  caller :: 's

type_synonym 's callback = "jsval \<Rightarrow> terms_data option \<Rightarrow> 's \<Rightarrow> 's"

text \<open>A run ends normally or by a thrown exception, in either case in some state.\<close>

datatype 'w outcome = Done 'w | Thrown js_error 'w

fun state_of :: "'w outcome \<Rightarrow> 'w" where
  "state_of (Done w) = w"
| "state_of (Thrown e w) = w"

fun completed :: "'w outcome \<Rightarrow> bool" where
  "completed (Done w) = True"
| "completed (Thrown e w) = False"

text \<open>Evaluate an expression that may throw, then go on with its value.\<close>

definition read_then :: "js_error + 'a \<Rightarrow> ('a \<Rightarrow> 'w \<Rightarrow> 'w outcome) \<Rightarrow> 'w \<Rightarrow> 'w outcome" where
  "read_then r k w = (case r of Inl e \<Rightarrow> Thrown e w | Inr v \<Rightarrow> k v w)"

subsection \<open>showTerms\<close>

text \<open>
  The inner function \<open>handler(error, response)\<close> of \<open>showTerms\<close> (lines 55 to 73),
  closed over \<open>callback\<close>. The local \<open>terms\<close> is \<open>doc\<close> here. \<open>Date.parse\<close> converts
  its argument to a string first, which may throw. The properties of the object
  literal are evaluated in the order written, after \<open>Date.parse\<close>.
\<close>

definition handler ::
  "host \<Rightarrow> (jsval \<Rightarrow> terms_data option \<Rightarrow> 'w \<Rightarrow> 'w) \<Rightarrow>
   jsval \<Rightarrow> jsval \<Rightarrow> 'w \<Rightarrow> 'w outcome" where
  "handler h callback error response =
     (if error \<noteq> JNull then (\<lambda>w. Done (callback error None w))
      else read_then (get response ''length'') (\<lambda>len.
        if \<not> to_boolean len then (\<lambda>w. Done (callback JNull None w))
        else read_then (get response ''0'') (\<lambda>doc.
             read_then (get doc ''created-on'') (\<lambda>created_on.
             read_then (to_string h created_on) (\<lambda>text.
             let milliseconds = date_parse h text in
             read_then (get doc ''name'') (\<lambda>n.
             read_then (get doc ''title'') (\<lambda>t.
             read_then (get doc ''revision'') (\<lambda>r.
             read_then (get doc ''content'') (\<lambda>c w.
               Done (callback JNull
                 (Some \<lparr> name = n, title = t, revision = r, content = c,
                         createdAt = new_Date milliseconds \<rparr>) w))))))))))"

datatype http_method = GET

text \<open>
  Modelled from the spec: the success continuation that \<open>jujulib._makeRequest\<close>, which
  is not among the sources, gives to the transport. The specification (4.1) has the
  decoded response handed on with a \<open>null\<close> error.
\<close>

definition on_success :: "(jsval \<Rightarrow> jsval \<Rightarrow> 'w \<Rightarrow> 'w outcome) \<Rightarrow> jsval \<Rightarrow> 'w \<Rightarrow> 'w outcome" where
  "on_success h data = h JNull data"

text \<open>
  Modelled from the spec: the failure continuation of \<open>jujulib._makeRequest\<close>. The
  specification (4.1) has the \<open>Message\<close> field of the decoded error payload (or its
  \<open>message\<close>) extracted and handed on as the error.
\<close>

definition on_failure :: "(jsval \<Rightarrow> jsval \<Rightarrow> 'w \<Rightarrow> 'w outcome) \<Rightarrow> jsval \<Rightarrow> 'w \<Rightarrow> 'w outcome" where
  "on_failure h data =
     read_then (get data ''Message'') (\<lambda>m.
       if m \<noteq> JUndefined then h m data
       else read_then (get data ''message'') (\<lambda>m'. h m' data))"

text \<open>
  Modelled from the spec: the transport invoking the continuations, in order. A
  continuation in which the handler throws ends the delivery there.
\<close>

fun deliver ::
  "(jsval \<Rightarrow> jsval \<Rightarrow> 'w \<Rightarrow> 'w outcome) \<Rightarrow> transport_event list \<Rightarrow> 'w \<Rightarrow> 'w outcome" where
  "deliver h [] w = Done w"
| "deliver h (ev # evs) w =
     (case (case ev of Success data \<Rightarrow> on_success h data w
                     | Failure data \<Rightarrow> on_failure h data w) of
        Done w' \<Rightarrow> deliver h evs w'
      | Thrown e w' \<Rightarrow> Thrown e w')"

text \<open>
  Modelled from the spec: \<open>jujulib._makeRequest(bakery, path, method, params, callback)\<close>,
  which is not among the sources. The specification (4.1 and 6) has the GET delegated
  to the transport's \<open>sendGetRequest(path, onSuccess, onFailure)\<close>, one network request
  per call.
\<close>

definition makeRequest ::
  "bakery_object \<Rightarrow> string \<Rightarrow> http_method \<Rightarrow> jsval \<Rightarrow>
   (jsval \<Rightarrow> jsval \<Rightarrow> 's world \<Rightarrow> 's world outcome) \<Rightarrow> 's world \<Rightarrow> 's world outcome" where
  "makeRequest bk path method params h w =
     (case method of
        GET \<Rightarrow> deliver h (sendGetRequest bk path) (w\<lparr>requests := requests w @ [path]\<rparr>))"

text \<open>
  \<open>showTerms(name, revision, callback)\<close> on the client \<open>self w\<close>. The parameters \<open>name\<close>
  and \<open>revision\<close> are \<open>nm\<close> and \<open>revn\<close> here. Lines 74 to 77, which compute the local
  \<open>url\<close>, are \<open>request_path\<close>: each \<open>+\<close> converts its right operand to a string, and
  a conversion that throws ends the call before \<open>_makeRequest\<close> is reached. The callback
  changes the caller's state only.
\<close>

definition request_path :: "host \<Rightarrow> terms_client \<Rightarrow> jsval \<Rightarrow> jsval \<Rightarrow> js_error + string" where
  "request_path h this nm revn =
     (case to_string h nm of
        Inl e \<Rightarrow> Inl e
      | Inr name_text \<Rightarrow>
          let path = url this @ ''/terms/'' @ name_text
          in if revn = JNum 0 \<or> to_boolean revn
             then (case to_string h revn of
                     Inl e \<Rightarrow> Inl e
                   | Inr revision_text \<Rightarrow> Inr (path @ ''?revision='' @ revision_text))
             else Inr path)"

definition invoke :: "'s callback \<Rightarrow> jsval \<Rightarrow> terms_data option \<Rightarrow> 's world \<Rightarrow> 's world" where
  "invoke callback e r w = w\<lparr>caller := callback e r (caller w)\<rparr>"

definition showTerms ::
  "host \<Rightarrow> jsval \<Rightarrow> jsval \<Rightarrow> 's callback \<Rightarrow> 's world \<Rightarrow> 's world outcome" where
  "showTerms h nm revn callback w =
     (let handler = handler h (invoke callback)
      in read_then (request_path h (self w) nm revn)
           (\<lambda>path. makeRequest (bakery (self w)) path GET JNull handler) w)"

subsection \<open>Observing a call\<close>

text \<open>A callback that only records the arguments of each invocation.\<close>

definition record_call ::
  "jsval \<Rightarrow> terms_data option \<Rightarrow> (jsval \<times> terms_data option) list
   \<Rightarrow> (jsval \<times> terms_data option) list" where
  "record_call e r calls = calls @ [(e, r)]"

text \<open>The paths a run handed to the transport: what it added to the log.\<close>

definition issued :: "'s world \<Rightarrow> 's world outcome \<Rightarrow> string list" where
  "issued w out = drop (length (requests w)) (requests (state_of out))"

text \<open>The callback invocations a run made, when the callback is \<open>record_call\<close>.\<close>

definition invocations ::
  "(jsval \<times> terms_data option) list world \<Rightarrow> (jsval \<times> terms_data option) list world outcome
   \<Rightarrow> (jsval \<times> terms_data option) list" where
  "invocations w out = drop (length (caller w)) (caller (state_of out))"

subsection \<open>The specification's vocabulary\<close>

text \<open>
  The revision argument as the specification reads it (4.1): \<open>null\<close> or absent means
  the most recent revision; a non-negative integer or a numeric string is a revision
  explicitly supplied.
\<close>

fun absent_revision :: "jsval \<Rightarrow> bool" where
  "absent_revision JNull = True"
| "absent_revision JUndefined = True"
| "absent_revision v = False"

fun explicit_revision :: "jsval \<Rightarrow> bool" where
  "explicit_revision (JNum n) = (0 \<le> n)"
| "explicit_revision (JStr s) = (s \<noteq> [] \<and> list_all (\<lambda>c. c \<in> set ''0123456789'') s)"
| "explicit_revision v = False"




subsection \<open>Test doubles\<close>

text \<open>
  The doubles of the test suite: the terms document it serves, a bakery that answers
  every request with the same continuations (and one that answers a single path only),
  and a client on \<open>http://1.2.3.4/\<close> with a recording callback.
\<close>

definition canonical_terms :: jsval where
  "canonical_terms = JObj
     [(''name'', JStr ''canonical''),
      (''title'', JStr ''canonical terms''),
      (''revision'', JNum 42),
      (''created-on'', JStr ''2016-06-09T22:07:24Z''),
      (''content'', JStr ''Terms and conditions'')]"

definition canned_bakery :: "transport_event list \<Rightarrow> bakery_object" where
  "canned_bakery evs = \<lparr> sendGetRequest = (\<lambda>path. evs) \<rparr>"

definition selective_bakery :: "string \<Rightarrow> transport_event list \<Rightarrow> bakery_object" where
  "selective_bakery p evs = \<lparr> sendGetRequest = (\<lambda>path. if path = p then evs else []) \<rparr>"

definition test_world :: "transport_event list \<Rightarrow> (jsval \<times> terms_data option) list world" where
  "test_world evs =
     \<lparr> self = terms ''http://1.2.3.4/'' (canned_bakery evs), requests = [], caller = [] \<rparr>"

text \<open>
  The same client later on: a request and a callback have gone by, and the transport
  answers the path of revision 42 only.
\<close>

definition later_world :: "(jsval \<times> terms_data option) list world" where
  "later_world =
     \<lparr> self = terms ''http://1.2.3.4''
         (selective_bakery ''http://1.2.3.4/v1/terms/canonical?revision=42''
            [Success (JArr [canonical_terms])]),
       requests = [''http://1.2.3.4/v1/terms/canonical''],
       caller = [(JNull, None)] \<rparr>"

text \<open>
  A host that knows the one timestamp of the suite, and two numbers beyond the safe
  range by the strings JavaScript prints for them.
\<close>

definition test_host :: host where
  "test_host =
     \<lparr> date_parse = (\<lambda>s. if s = ''2016-06-09T22:07:24Z'' then Some 1465510044000 else None),
       large_number_to_string =
         (\<lambda>n. if n = 18446744073709551616 then ''18446744073709552000''
              else if n = 1000000000000000000000 then ''1e+21''
              else ''?'') \<rparr>"

section \<open>Properties\<close>

subsection \<open>The constructor\<close>

lemma replace_slash_at_end_eq:
  "replace_slash_at_end s = without_trailing_slash s @ ''/''"
  by (induction s) (auto simp: without_trailing_slash_def)

text \<open>
  C3. For every base URL, whether or not it ends in a separator, the URL stored by the
  constructor is the base (the argument without its trailing separator, if any), one
  \<open>/\<close>, and the version segment \<open>v1\<close>. So an argument written with the separator and
  the same argument written without it give the same URL, with one separator before
  the version segment.
\<close>

theorem terms_url:
  "url (terms base b) = without_trailing_slash base @ ''/'' @ ''v1''
   \<and> url (terms (base @ ''/'') b) = base @ ''/'' @ ''v1''
   \<and> (base = [] \<or> last base \<noteq> CHR ''/'' \<longrightarrow> url (terms base b) = base @ ''/'' @ ''v1'')"
  by (simp add: terms_def termsAPIVersion_def replace_slash_at_end_eq
      without_trailing_slash_def)

theorem terms_url_witness:
  "last ''http://1.2.3.4'' \<noteq> CHR ''/''
   \<and> url (terms ''http://1.2.3.4'' (canned_bakery [])) = ''http://1.2.3.4/v1''
   \<and> url (terms ''http://1.2.3.4/'' (canned_bakery [])) = ''http://1.2.3.4/v1''"
  using terms_url [of "''http://1.2.3.4''" "canned_bakery []"]
  by (simp add: without_trailing_slash_def)

subsection \<open>Property reads\<close>

lemma get_null [simp]: "get JNull k = Inl TypeError" "get JUndefined k = Inl TypeError"
  by (simp_all add: get_def)

lemma get_value: "v \<noteq> JNull \<Longrightarrow> v \<noteq> JUndefined \<Longrightarrow> get v k = Inr (property_of v k)"
  by (simp add: get_def)

lemma get_array [simp]: "get (JArr xs) k = Inr (property_of (JArr xs) k)"
  by (simp add: get_def)

lemma get_object [simp]: "get (JObj kvs) k = Inr (field kvs k)"
  by (simp add: get_def)

lemma only_TypeError: "(e :: js_error) = TypeError"
  by (cases e) simp

subsection \<open>The handler\<close>

text \<open>The branches of the handler that call the callback.\<close>

lemma handler_error:
  "error \<noteq> JNull \<Longrightarrow> handler h cb error response w = Done (cb error None w)"
  by (simp add: handler_def)

lemma handler_empty:
  "handler h cb JNull (JArr []) w = Done (cb JNull None w)"
  by (simp add: handler_def read_then_def)

lemma handler_first:
  assumes "d \<noteq> JNull" and "d \<noteq> JUndefined"
    and "to_string h (property_of d ''created-on'') = Inr text"
  shows "handler h cb JNull (JArr (d # others)) w =
     Done (cb JNull (Some \<lparr> name = property_of d ''name'', title = property_of d ''title'',
       revision = property_of d ''revision'', content = property_of d ''content'',
       createdAt = new_Date (date_parse h text) \<rparr>) w)"
  using assms by (simp add: handler_def read_then_def get_value)


lemma handler_null_element:
  "handler h cb JNull (JArr (JNull # others)) w = Thrown TypeError w"
  by (simp add: handler_def read_then_def)

lemma handler_unprintable_date:
  assumes "d \<noteq> JNull" and "d \<noteq> JUndefined"
    and "to_string h (property_of d ''created-on'') = Inl e"
  shows "handler h cb JNull (JArr (d # others)) w = Thrown TypeError w"
  using assms by (simp add: handler_def read_then_def get_value only_TypeError)

text \<open>
  It does nothing else: whatever the error and the response are, the handler either
  calls the callback once, never with both an error and a record, or throws a
  TypeError before calling it, and which of the two does not depend on the state.
\<close>

lemma handler_uniform:
  "(\<exists>e r. (r = None \<or> e = JNull) \<and> (\<forall>w. handler h cb error response w = Done (cb e r w)))
   \<or> (\<forall>w. handler h cb error response w = Thrown TypeError w)"
proof (cases "error = JNull")
  case False
  then have "\<forall>w. handler h cb error response w = Done (cb error None w)"
    by (simp add: handler_def)
  then show ?thesis by blast
next
  case null: True
  show ?thesis
  proof (cases "get response ''length''")
    case (Inl e)
    with null show ?thesis by (simp add: handler_def read_then_def only_TypeError)
  next
    case len: (Inr len)
    show ?thesis
    proof (cases "to_boolean len")
      case False
      with null len have "\<forall>w. handler h cb error response w = Done (cb JNull None w)"
        by (simp add: handler_def read_then_def)
      then show ?thesis by blast
    next
      case truthy: True
      show ?thesis
      proof (cases "get response ''0''")
        case (Inl e)
        with null len truthy show ?thesis
          by (simp add: handler_def read_then_def only_TypeError)
      next
        case doc: (Inr doc)
        show ?thesis
        proof (cases "doc = JNull \<or> doc = JUndefined")
          case True
          with null len truthy doc show ?thesis
            by (auto simp: handler_def read_then_def)
        next
          case False
          then have g: "get doc k = Inr (property_of doc k)" for k
            by (simp add: get_value)
          show ?thesis
          proof (cases "to_string h (property_of doc ''created-on'')")
            case (Inl e)
            with null len truthy doc g show ?thesis
              by (simp add: handler_def read_then_def only_TypeError)
          next
            case (Inr printed)
            with null len truthy doc g
            have "\<forall>w. handler h cb error response w =
                Done (cb JNull (Some \<lparr> name = property_of doc ''name'',
                  title = property_of doc ''title'', revision = property_of doc ''revision'',
                  content = property_of doc ''content'',
                  createdAt = new_Date (date_parse h printed) \<rparr>) w)"
              by (simp add: handler_def read_then_def)
            then show ?thesis by blast
          qed
        qed
      qed
    qed
  qed
qed

subsection \<open>The request helper\<close>

lemma on_failure_uniform:
  "(\<exists>e r. (r = None \<or> e = JNull) \<and> (\<forall>w. on_failure (handler h cb) data w = Done (cb e r w)))
   \<or> (\<forall>w. on_failure (handler h cb) data w = Thrown TypeError w)"
proof (cases "get data ''Message''")
  case (Inl e)
  then show ?thesis by (simp add: on_failure_def read_then_def only_TypeError)
next
  case (Inr m)
  show ?thesis
  proof (cases "m = JUndefined")
    case False
    with Inr handler_uniform [of h cb m data] show ?thesis
      by (simp add: on_failure_def read_then_def)
  next
    case True
    show ?thesis
    proof (cases "get data ''message''")
      case (Inl e)
      with Inr True show ?thesis by (simp add: on_failure_def read_then_def only_TypeError)
    next
      case (Inr m')
      with \<open>get data ''Message'' = Inr m\<close> True handler_uniform [of h cb m' data]
      show ?thesis by (simp add: on_failure_def read_then_def)
    qed
  qed
qed

lemma continuation_uniform:
  "(\<exists>e r. (r = None \<or> e = JNull)
        \<and> (\<forall>w. (case ev of Success data \<Rightarrow> on_success (handler h cb) data w
                         | Failure data \<Rightarrow> on_failure (handler h cb) data w) = Done (cb e r w)))
   \<or> (\<forall>w. (case ev of Success data \<Rightarrow> on_success (handler h cb) data w
                       | Failure data \<Rightarrow> on_failure (handler h cb) data w) = Thrown TypeError w)"
proof (cases ev)
  case (Success data)
  with handler_uniform [of h cb JNull data] show ?thesis by (simp add: on_success_def)
next
  case (Failure data)
  with on_failure_uniform [of h cb data] show ?thesis by simp
qed

lemma deliver_frame:
  "\<exists>s. state_of (deliver (handler h (invoke cb)) evs w) = w\<lparr>caller := s\<rparr>"
proof (induction evs arbitrary: w)
  case Nil
  have "w = w\<lparr>caller := caller w\<rparr>" by simp
  then show ?case by (metis deliver.simps(1) state_of.simps(1))
next
  case (Cons ev evs)
  from continuation_uniform [where ev = ev and h = h and cb = "invoke cb"] show ?case
  proof
    assume "\<exists>e r. (r = None \<or> e = JNull)
        \<and> (\<forall>w. (case ev of Success data \<Rightarrow> on_success (handler h (invoke cb)) data w
                         | Failure data \<Rightarrow> on_failure (handler h (invoke cb)) data w)
                  = Done (invoke cb e r w))"
    then obtain e r where
      "(case ev of Success data \<Rightarrow> on_success (handler h (invoke cb)) data w
                 | Failure data \<Rightarrow> on_failure (handler h (invoke cb)) data w) = Done (invoke cb e r w)"
      by blast
    then have "deliver (handler h (invoke cb)) (ev # evs) w =
               deliver (handler h (invoke cb)) evs (invoke cb e r w)"
      by simp
    moreover from Cons.IH [of "invoke cb e r w"] obtain s where
      "state_of (deliver (handler h (invoke cb)) evs (invoke cb e r w)) = (invoke cb e r w)\<lparr>caller := s\<rparr>"
      by blast
    moreover have "(invoke cb e r w)\<lparr>caller := s\<rparr> = w\<lparr>caller := s\<rparr>"
      by (simp add: invoke_def)
    ultimately have "state_of (deliver (handler h (invoke cb)) (ev # evs) w) = w\<lparr>caller := s\<rparr>"
      by simp
    then show ?thesis by blast
  next
    assume "\<forall>w. (case ev of Success data \<Rightarrow> on_success (handler h (invoke cb)) data w
                       | Failure data \<Rightarrow> on_failure (handler h (invoke cb)) data w) = Thrown TypeError w"
    then have "state_of (deliver (handler h (invoke cb)) (ev # evs) w) = w\<lparr>caller := caller w\<rparr>"
      by simp
    then show ?thesis by blast
  qed
qed

subsection \<open>One call of showTerms\<close>

text \<open>
  A call whose path can be built hands the path to the transport and runs the
  continuations; a call whose path cannot be built throws and does nothing else.
\<close>

lemma showTerms_issues:
  "request_path h (self w) nm revn = Inr p \<Longrightarrow>
   showTerms h nm revn cb w =
     deliver (handler h (invoke cb)) (sendGetRequest (bakery (self w)) p)
       (w\<lparr>requests := requests w @ [p]\<rparr>)"
  by (simp add: showTerms_def makeRequest_def read_then_def)

lemma showTerms_throws:
  "request_path h (self w) nm revn = Inl e \<Longrightarrow> showTerms h nm revn cb w = Thrown TypeError w"
  by (simp add: showTerms_def read_then_def only_TypeError)

lemma showTerms_state:
  "\<exists>s. state_of (showTerms h nm revn cb w) =
     w\<lparr>requests := requests w @ (case request_path h (self w) nm revn of Inl e \<Rightarrow> [] | Inr p \<Rightarrow> [p]),
        caller := s\<rparr>"
proof (cases "request_path h (self w) nm revn")
  case (Inl e)
  then have "state_of (showTerms h nm revn cb w) =
     w\<lparr>requests := requests w @ (case request_path h (self w) nm revn of Inl e \<Rightarrow> [] | Inr p \<Rightarrow> [p]),
        caller := caller w\<rparr>"
    by (simp add: showTerms_throws)
  then show ?thesis by blast
next
  case (Inr p)
  with deliver_frame [of h cb _ "w\<lparr>requests := requests w @ [p]\<rparr>"]
  show ?thesis by (simp add: showTerms_issues)
qed

lemma showTerms_issued:
  "issued w (showTerms h nm revn cb w) =
     (case request_path h (self w) nm revn of Inl e \<Rightarrow> [] | Inr p \<Rightarrow> [p])"
  using showTerms_state [of h nm revn cb w] by (auto simp: issued_def)

lemma showTerms_self:
  "self (state_of (showTerms h nm revn cb w)) = self w"
  using showTerms_state [of h nm revn cb w] by auto

lemma showTerms_on_success:
  assumes "request_path h (self w) nm revn = Inr p"
    and "sendGetRequest (bakery (self w)) p = [Success data]"
  shows "showTerms h nm revn cb w =
           handler h (invoke cb) JNull data (w\<lparr>requests := requests w @ [p]\<rparr>)"
  using assms
  by (cases "handler h (invoke cb) JNull data (w\<lparr>requests := requests w @ [p]\<rparr>)")
     (simp_all add: showTerms_issues on_success_def)

lemma showTerms_on_failure:
  assumes "request_path h (self w) nm revn = Inr p"
    and "sendGetRequest (bakery (self w)) p = [Failure data]"
  shows "showTerms h nm revn cb w =
           on_failure (handler h (invoke cb)) data (w\<lparr>requests := requests w @ [p]\<rparr>)"
  using assms
  by (cases "on_failure (handler h (invoke cb)) data (w\<lparr>requests := requests w @ [p]\<rparr>)")
     (simp_all add: showTerms_issues)

text \<open>With the recording callback, a delivery appends the same invocations in any state.\<close>

lemma deliver_record:
  "\<exists>cs ok. \<forall>w. deliver (handler h (invoke record_call)) evs w =
     (if ok then Done (w\<lparr>caller := caller w @ cs\<rparr>)
      else Thrown TypeError (w\<lparr>caller := caller w @ cs\<rparr>))"
proof (induction evs)
  case Nil
  have "\<forall>w. deliver (handler h (invoke record_call)) [] w =
     (if True then Done (w\<lparr>caller := caller w @ []\<rparr>)
      else Thrown TypeError (w\<lparr>caller := caller w @ []\<rparr>))"
    by simp
  then show ?case by blast
next
  case (Cons ev evs)
  then obtain cs ok where IH: "\<And>w. deliver (handler h (invoke record_call)) evs w =
     (if ok then Done (w\<lparr>caller := caller w @ cs\<rparr>)
      else Thrown TypeError (w\<lparr>caller := caller w @ cs\<rparr>))"
    by blast
  from continuation_uniform [where ev = ev and h = h and cb = "invoke record_call"]
  show ?case
  proof
    assume "\<exists>e r. (r = None \<or> e = JNull)
        \<and> (\<forall>w. (case ev of Success data \<Rightarrow> on_success (handler h (invoke record_call)) data w
                         | Failure data \<Rightarrow> on_failure (handler h (invoke record_call)) data w)
                  = Done (invoke record_call e r w))"
    then obtain e r where st: "\<And>w. (case ev of Success data \<Rightarrow> on_success (handler h (invoke record_call)) data w
                              | Failure data \<Rightarrow> on_failure (handler h (invoke record_call)) data w)
                       = Done (invoke record_call e r w)"
      by blast
    have "\<forall>w. deliver (handler h (invoke record_call)) (ev # evs) w =
       (if ok then Done (w\<lparr>caller := caller w @ ((e, r) # cs)\<rparr>)
        else Thrown TypeError (w\<lparr>caller := caller w @ ((e, r) # cs)\<rparr>))"
      by (simp add: st IH) (simp add: invoke_def record_call_def)
    then show ?thesis by blast
  next
    assume "\<forall>w. (case ev of Success data \<Rightarrow> on_success (handler h (invoke record_call)) data w
                       | Failure data \<Rightarrow> on_failure (handler h (invoke record_call)) data w)
                  = Thrown TypeError w"
    then have "\<forall>w. deliver (handler h (invoke record_call)) (ev # evs) w =
       (if False then Done (w\<lparr>caller := caller w @ []\<rparr>)
        else Thrown TypeError (w\<lparr>caller := caller w @ []\<rparr>))"
      by simp
    then show ?thesis by blast
  qed
qed

lemma showTerms_record:
  "\<exists>cs ok. \<forall>w p. request_path h (self w) nm revn = Inr p \<longrightarrow>
      sendGetRequest (bakery (self w)) p = evs \<longrightarrow>
      invocations w (showTerms h nm revn record_call w) = cs
      \<and> completed (showTerms h nm revn record_call w) = ok"
proof -
  from deliver_record [of h evs] obtain cs ok where
    d: "\<And>w. deliver (handler h (invoke record_call)) evs w =
     (if ok then Done (w\<lparr>caller := caller w @ cs\<rparr>)
      else Thrown TypeError (w\<lparr>caller := caller w @ cs\<rparr>))"
    by blast
  have "\<forall>w p. request_path h (self w) nm revn = Inr p \<longrightarrow>
      sendGetRequest (bakery (self w)) p = evs \<longrightarrow>
      invocations w (showTerms h nm revn record_call w) = cs
      \<and> completed (showTerms h nm revn record_call w) = ok"
    by (simp add: showTerms_issues d invocations_def)
  then show ?thesis by blast
qed

lemma showTerms_record_throws:
  "request_path h (self w) nm revn = Inl e \<Longrightarrow>
   invocations w (showTerms h nm revn record_call w) = []
   \<and> \<not> completed (showTerms h nm revn record_call w)"
  by (simp add: showTerms_throws invocations_def)

lemma request_path_url:
  "url c1 = url c2 \<Longrightarrow> request_path h c1 nm revn = request_path h c2 nm revn"
  by (simp add: request_path_def Let_def split: sum.splits)

lemma request_path_string:
  "request_path h c (JStr n) revn =
     (if revn = JNum 0 \<or> to_boolean revn
      then (case to_string h revn of
              Inl e \<Rightarrow> Inl e
            | Inr printed \<Rightarrow> Inr (url c @ ''/terms/'' @ n @ ''?revision='' @ printed))
      else Inr (url c @ ''/terms/'' @ n))"
  by (simp add: request_path_def Let_def split: sum.splits)

lemma show_int_0: "show_int 0 = ''0''"
  by (simp add: show_int_def show_nat.simps digit_char_def)

text \<open>The requests of the test suite.\<close>

lemma test_path_42:
  "request_path test_host (self (test_world evs)) (JStr ''canonical'') (JNum 42)
     = Inr ''http://1.2.3.4/v1/terms/canonical?revision=42''"
  by (simp add: request_path_def test_world_def terms_def termsAPIVersion_def
      number_to_string_def show_int_def show_nat.simps digit_char_def)

lemma test_path_latest:
  "request_path test_host (self (test_world evs)) (JStr ''canonical'') JNull
     = Inr ''http://1.2.3.4/v1/terms/canonical''"
  by (simp add: request_path_def test_world_def terms_def termsAPIVersion_def)

lemma test_answer:
  "sendGetRequest (bakery (self (test_world evs))) p = evs"
  by (simp add: test_world_def terms_def canned_bakery_def)

subsection \<open>The request path\<close>

text \<open>
  C1, as the code has it. For every name that is a string and every revision argument,
  \<open>showTerms\<close> hands the transport one path, the client's stored URL, \<open>/terms/\<close> and the
  name, followed by \<open>?revision=\<close> and the revision as JavaScript prints it when the
  revision is the number 0 or truthy, and by nothing otherwise; except that a truthy
  revision that cannot be converted to a string (an object with an own \<open>toString\<close>
  property, or an array holding one) makes the call throw a TypeError, and then no
  request is issued. On the revision arguments the specification recognises (absent, or
  a non-negative integer or numeric string) the conversion never throws and the
  revision is appended exactly when a revision was explicitly supplied. In particular
  the number 0 gives \<open>?revision=0\<close> and \<open>null\<close> gives no query string.
\<close>

theorem showTerms_request_path:
  "issued w (showTerms h (JStr n) revn cb w) =
     (if revn = JNum 0 \<or> to_boolean revn
      then (case to_string h revn of
              Inr printed \<Rightarrow> [url (self w) @ ''/terms/'' @ n @ ''?revision='' @ printed]
            | Inl e \<Rightarrow> [])
      else [url (self w) @ ''/terms/'' @ n])
   \<and> ((revn = JNum 0 \<or> to_boolean revn) \<and> to_string h revn = Inl TypeError \<longrightarrow>
        showTerms h (JStr n) revn cb w = Thrown TypeError w)
   \<and> (absent_revision revn \<or> explicit_revision revn \<longrightarrow>
        (revn = JNum 0 \<or> to_boolean revn) = explicit_revision revn
        \<and> (\<exists>printed. to_string h revn = Inr printed
             \<and> issued w (showTerms h (JStr n) revn cb w) =
                 [url (self w) @ ''/terms/'' @ n @
                    (if explicit_revision revn then ''?revision='' @ printed else [])]))
   \<and> issued w (showTerms h (JStr n) (JNum 0) cb w) =
       [url (self w) @ ''/terms/'' @ n @ ''?revision=0'']
   \<and> issued w (showTerms h (JStr n) JNull cb w) = [url (self w) @ ''/terms/'' @ n]"
proof -
  have general: "issued w (showTerms h (JStr n) r cb w) =
     (if r = JNum 0 \<or> to_boolean r
      then (case to_string h r of
              Inr printed \<Rightarrow> [url (self w) @ ''/terms/'' @ n @ ''?revision='' @ printed]
            | Inl e \<Rightarrow> [])
      else [url (self w) @ ''/terms/'' @ n])" for r
    by (simp add: showTerms_issued request_path_string split: sum.splits)
  have recognised: "(revn = JNum 0 \<or> to_boolean revn) = explicit_revision revn
        \<and> (\<exists>printed. to_string h revn = Inr printed
             \<and> issued w (showTerms h (JStr n) revn cb w) =
                 [url (self w) @ ''/terms/'' @ n @
                    (if explicit_revision revn then ''?revision='' @ printed else [])])"
    if "absent_revision revn \<or> explicit_revision revn"
    using that by (cases revn) (auto simp: general)
  have zero: "issued w (showTerms h (JStr n) (JNum 0) cb w) =
       [url (self w) @ ''/terms/'' @ n @ ''?revision=0'']"
    by (simp add: general number_to_string_def show_int_0)
  have null: "issued w (showTerms h (JStr n) JNull cb w) = [url (self w) @ ''/terms/'' @ n]"
    by (simp add: general)
  have throws: "showTerms h (JStr n) revn cb w = Thrown TypeError w"
    if "(revn = JNum 0 \<or> to_boolean revn) \<and> to_string h revn = Inl TypeError"
    using that by (auto simp: request_path_string intro: showTerms_throws)
  from general [of revn] throws recognised zero null show ?thesis by blast
qed

theorem showTerms_request_path_witness:
  "(absent_revision (JNum 42) \<or> explicit_revision (JNum 42))
   \<and> issued (test_world []) (showTerms test_host (JStr ''canonical'') (JNum 42) record_call (test_world []))
       = [''http://1.2.3.4/v1/terms/canonical?revision=42'']
   \<and> issued (test_world []) (showTerms test_host (JStr ''canonical'') (JNum 0) record_call (test_world []))
       = [''http://1.2.3.4/v1/terms/canonical?revision=0'']
   \<and> issued (test_world []) (showTerms test_host (JStr ''canonical'') JNull record_call (test_world []))
       = [''http://1.2.3.4/v1/terms/canonical'']"
  using showTerms_request_path [of "test_world []" test_host "''canonical''" "JNum 42" record_call]
  by (simp add: test_world_def terms_def termsAPIVersion_def number_to_string_def show_int_def
      show_nat.simps digit_char_def)

text \<open>
  The claim without the exception fails: for a revision that is an object with an own
  \<open>toString\<close> property, no path is issued at all.
\<close>

theorem showTerms_request_path_counterexample:
  "to_boolean (JObj [(''toString'', JNull)])
   \<and> showTerms test_host (JStr ''canonical'') (JObj [(''toString'', JNull)]) record_call (test_world [])
       = Thrown TypeError (test_world [])
   \<and> issued (test_world [])
        (showTerms test_host (JStr ''canonical'') (JObj [(''toString'', JNull)]) record_call (test_world []))
       = []"
  by (simp add: showTerms_def request_path_def read_then_def issued_def)

subsection \<open>What the callback receives\<close>

text \<open>
  C4. When the transport answers with a success response that decodes to an empty
  array, the callback is called with \<open>null\<close> and \<open>null\<close>: no error and no record.
\<close>

theorem showTerms_empty_response:
  assumes "request_path h (self w) nm revn = Inr p"
    and "sendGetRequest (bakery (self w)) p = [Success (JArr [])]"
  shows "showTerms h nm revn cb w =
           Done (w\<lparr>requests := requests w @ [p], caller := cb JNull None (caller w)\<rparr>)"
  by (simp add: showTerms_on_success [OF assms] handler_empty invoke_def)

theorem showTerms_empty_response_witness:
  "request_path test_host (self (test_world [Success (JArr [])])) (JStr ''canonical'') JNull
     = Inr ''http://1.2.3.4/v1/terms/canonical''
   \<and> sendGetRequest (bakery (self (test_world [Success (JArr [])])))
        ''http://1.2.3.4/v1/terms/canonical'' = [Success (JArr [])]
   \<and> showTerms test_host (JStr ''canonical'') JNull record_call (test_world [Success (JArr [])]) =
       Done ((test_world [Success (JArr [])])
              \<lparr>requests := [''http://1.2.3.4/v1/terms/canonical''], caller := [(JNull, None)]\<rparr>)"
  using test_path_latest [of "[Success (JArr [])]"]
    test_answer [of "[Success (JArr [])]" "''http://1.2.3.4/v1/terms/canonical''"]
    showTerms_empty_response [OF test_path_latest test_answer, of record_call]
  by (simp add: test_world_def record_call_def)

text \<open>
  C2, as the code has it. When the transport answers with a success response that
  decodes to a non-empty array whose first element is neither \<open>null\<close> nor \<open>undefined\<close>
  and has a \<open>created-on\<close> that can be converted to a string, the callback is called
  with \<open>null\<close> and a record built from the first element alone: its \<open>name\<close>, \<open>title\<close>,
  \<open>revision\<close> and \<open>content\<close> are the first element's properties of those names,
  unchanged, and its \<open>createdAt\<close> is the date of the time value that parsing the
  element's \<open>created-on\<close> gives. The other elements do not occur in the result.
\<close>

theorem showTerms_first_element:
  assumes "request_path h (self w) nm revn = Inr p"
    and "sendGetRequest (bakery (self w)) p = [Success (JArr (d # others))]"
    and "d \<noteq> JNull" and "d \<noteq> JUndefined"
    and "to_string h (property_of d ''created-on'') = Inr printed"
  shows "showTerms h nm revn cb w =
           Done (w\<lparr>requests := requests w @ [p],
                   caller := cb JNull
                     (Some \<lparr> name = property_of d ''name'', title = property_of d ''title'',
                             revision = property_of d ''revision'',
                             content = property_of d ''content'',
                             createdAt = new_Date (date_parse h printed) \<rparr>)
                     (caller w)\<rparr>)"
  by (simp add: showTerms_on_success [OF assms(1,2)] handler_first [OF assms(3,4,5)] invoke_def)

theorem showTerms_first_element_witness:
  "request_path test_host (self (test_world [Success (JArr [canonical_terms, JNull])]))
       (JStr ''canonical'') (JNum 42)
     = Inr ''http://1.2.3.4/v1/terms/canonical?revision=42''
   \<and> sendGetRequest (bakery (self (test_world [Success (JArr [canonical_terms, JNull])])))
        ''http://1.2.3.4/v1/terms/canonical?revision=42''
      = [Success (JArr [canonical_terms, JNull])]
   \<and> canonical_terms \<noteq> JNull \<and> canonical_terms \<noteq> JUndefined
   \<and> to_string test_host (property_of canonical_terms ''created-on'') = Inr ''2016-06-09T22:07:24Z''
   \<and> showTerms test_host (JStr ''canonical'') (JNum 42) record_call
       (test_world [Success (JArr [canonical_terms, JNull])]) =
       Done ((test_world [Success (JArr [canonical_terms, JNull])])
              \<lparr>requests := [''http://1.2.3.4/v1/terms/canonical?revision=42''],
               caller := [(JNull, Some \<lparr> name = JStr ''canonical'', title = JStr ''canonical terms'',
                    revision = JNum 42, content = JStr ''Terms and conditions'',
                    createdAt = Date (Some 1465510044000) \<rparr>)]\<rparr>)"
proof -
  have a: "sendGetRequest (bakery (self (test_world [Success (JArr [canonical_terms, JNull])])))
        ''http://1.2.3.4/v1/terms/canonical?revision=42''
      = [Success (JArr (canonical_terms # [JNull]))]"
    by (simp add: test_answer)
  have n: "canonical_terms \<noteq> JNull" and u: "canonical_terms \<noteq> JUndefined"
    by (simp_all add: canonical_terms_def)
  have c: "to_string test_host (property_of canonical_terms ''created-on'') = Inr ''2016-06-09T22:07:24Z''"
    by (simp add: canonical_terms_def field_def)
  from showTerms_first_element [OF test_path_42 a n u c, of record_call]
  have "showTerms test_host (JStr ''canonical'') (JNum 42) record_call
       (test_world [Success (JArr [canonical_terms, JNull])]) =
       Done ((test_world [Success (JArr [canonical_terms, JNull])])
              \<lparr>requests := [''http://1.2.3.4/v1/terms/canonical?revision=42''],
               caller := [(JNull, Some \<lparr> name = JStr ''canonical'', title = JStr ''canonical terms'',
                    revision = JNum 42, content = JStr ''Terms and conditions'',
                    createdAt = Date (Some 1465510044000) \<rparr>)]\<rparr>)"
    by (simp add: test_world_def record_call_def canonical_terms_def field_def test_host_def)
  with test_path_42 [of "[Success (JArr [canonical_terms, JNull])]"] a n u c
  show ?thesis by simp
qed

text \<open>
  The claim for every non-empty array fails: when the first element is \<open>null\<close>, and
  when its \<open>created-on\<close> is an object with an own \<open>toString\<close> property, the handler
  throws and the callback is never called.
\<close>

theorem showTerms_first_element_counterexample:
  "sendGetRequest (bakery (self (test_world [Success (JArr [JNull])])))
        ''http://1.2.3.4/v1/terms/canonical?revision=42''
      = [Success (JArr [JNull])]
   \<and> showTerms test_host (JStr ''canonical'') (JNum 42) record_call (test_world [Success (JArr [JNull])])
       = Thrown TypeError ((test_world [Success (JArr [JNull])])
              \<lparr>requests := [''http://1.2.3.4/v1/terms/canonical?revision=42'']\<rparr>)
   \<and> invocations (test_world [Success (JArr [JNull])])
        (showTerms test_host (JStr ''canonical'') (JNum 42) record_call
           (test_world [Success (JArr [JNull])])) = []
   \<and> showTerms test_host (JStr ''canonical'') (JNum 42) record_call
        (test_world [Success (JArr [JObj [(''created-on'', JObj [(''toString'', JNull)])]])])
       = Thrown TypeError ((test_world [Success (JArr [JObj [(''created-on'', JObj [(''toString'', JNull)])]])])
              \<lparr>requests := [''http://1.2.3.4/v1/terms/canonical?revision=42'']\<rparr>)"
proof -
  have one: "showTerms test_host (JStr ''canonical'') (JNum 42) record_call (test_world [Success (JArr [JNull])])
       = Thrown TypeError ((test_world [Success (JArr [JNull])])
              \<lparr>requests := [''http://1.2.3.4/v1/terms/canonical?revision=42'']\<rparr>)"
    by (simp add: showTerms_on_success [OF test_path_42 test_answer] handler_null_element)
       (simp add: test_world_def)
  then have none: "invocations (test_world [Success (JArr [JNull])])
        (showTerms test_host (JStr ''canonical'') (JNum 42) record_call
           (test_world [Success (JArr [JNull])])) = []"
    by (simp add: invocations_def test_world_def)
  have two: "showTerms test_host (JStr ''canonical'') (JNum 42) record_call
        (test_world [Success (JArr [JObj [(''created-on'', JObj [(''toString'', JNull)])]])])
       = Thrown TypeError ((test_world [Success (JArr [JObj [(''created-on'', JObj [(''toString'', JNull)])]])])
              \<lparr>requests := [''http://1.2.3.4/v1/terms/canonical?revision=42'']\<rparr>)"
    by (simp add: showTerms_on_success [OF test_path_42 test_answer]
          handler_unprintable_date [where e = TypeError] field_def)
       (simp add: test_world_def)
  from one none two test_answer [of "[Success (JArr [JNull])]"] show ?thesis by simp
qed

text \<open>
  C5. When the transport fails with a payload whose \<open>Message\<close> is a string, the callback
  is called with that string as the error and \<open>null\<close> as the result: no record is built.
\<close>

theorem showTerms_failure:
  assumes "request_path h (self w) nm revn = Inr p"
    and "sendGetRequest (bakery (self w)) p = [Failure payload]"
    and "get payload ''Message'' = Inr (JStr m)"
  shows "showTerms h nm revn cb w =
           Done (w\<lparr>requests := requests w @ [p], caller := cb (JStr m) None (caller w)\<rparr>)"
  by (simp add: showTerms_on_failure [OF assms(1,2)] on_failure_def read_then_def assms(3)
      handler_error invoke_def)

theorem showTerms_failure_witness:
  "request_path test_host (self (test_world [Failure (JObj [(''Message'', JStr ''bad wolf'')])]))
       (JStr ''canonical'') JNull
     = Inr ''http://1.2.3.4/v1/terms/canonical''
   \<and> sendGetRequest (bakery (self (test_world [Failure (JObj [(''Message'', JStr ''bad wolf'')])])))
        ''http://1.2.3.4/v1/terms/canonical''
     = [Failure (JObj [(''Message'', JStr ''bad wolf'')])]
   \<and> get (JObj [(''Message'', JStr ''bad wolf'')]) ''Message'' = Inr (JStr ''bad wolf'')
   \<and> showTerms test_host (JStr ''canonical'') JNull record_call
       (test_world [Failure (JObj [(''Message'', JStr ''bad wolf'')])]) =
       Done ((test_world [Failure (JObj [(''Message'', JStr ''bad wolf'')])])
              \<lparr>requests := [''http://1.2.3.4/v1/terms/canonical''],
               caller := [(JStr ''bad wolf'', None)]\<rparr>)"
proof -
  have g: "get (JObj [(''Message'', JStr ''bad wolf'')]) ''Message'' = Inr (JStr ''bad wolf'')"
    by (simp add: field_def)
  from showTerms_failure [OF test_path_latest test_answer g, of record_call]
  have "showTerms test_host (JStr ''canonical'') JNull record_call
       (test_world [Failure (JObj [(''Message'', JStr ''bad wolf'')])]) =
       Done ((test_world [Failure (JObj [(''Message'', JStr ''bad wolf'')])])
              \<lparr>requests := [''http://1.2.3.4/v1/terms/canonical''],
               caller := [(JStr ''bad wolf'', None)]\<rparr>)"
    by (simp add: test_world_def record_call_def)
  with g test_path_latest [of "[Failure (JObj [(''Message'', JStr ''bad wolf'')])]"]
    test_answer [of "[Failure (JObj [(''Message'', JStr ''bad wolf'')])]"]
  show ?thesis by simp
qed

text \<open>
  C7. When the first element's \<open>created-on\<close> is a string that does not parse as a date,
  \<open>showTerms\<close> still completes and calls the callback with \<open>null\<close> and a record whose
  \<open>name\<close>, \<open>title\<close>, \<open>revision\<close> and \<open>content\<close> are the first element's, and whose
  \<open>createdAt\<close> is the invalid date.
\<close>

theorem showTerms_unparseable_date:
  assumes "request_path h (self w) nm revn = Inr p"
    and "sendGetRequest (bakery (self w)) p = [Success (JArr (JObj doc # others))]"
    and "field doc ''created-on'' = JStr s"
    and "date_parse h s = None"
  shows "showTerms h nm revn cb w =
           Done (w\<lparr>requests := requests w @ [p],
                   caller := cb JNull
                     (Some \<lparr> name = field doc ''name'', title = field doc ''title'',
                             revision = field doc ''revision'', content = field doc ''content'',
                             createdAt = Date None \<rparr>)
                     (caller w)\<rparr>)
         \<and> \<not> valid_date (Date None)"
proof -
  have "to_string h (property_of (JObj doc) ''created-on'') = Inr s"
    by (simp add: assms(3))
  then have "handler h (invoke cb) JNull (JArr (JObj doc # others)) w' =
      Done (invoke cb JNull
        (Some \<lparr> name = field doc ''name'', title = field doc ''title'',
                revision = field doc ''revision'', content = field doc ''content'',
                createdAt = Date None \<rparr>) w')" for w'
    by (simp add: handler_first assms(4))
  then show ?thesis
    by (simp add: showTerms_on_success [OF assms(1,2)] invoke_def)
qed

theorem showTerms_unparseable_date_witness:
  "request_path test_host
       (self (test_world [Success (JArr [JObj [(''name'', JStr ''canonical''), (''created-on'', JStr ''soon'')]])]))
       (JStr ''canonical'') JNull
     = Inr ''http://1.2.3.4/v1/terms/canonical''
   \<and> sendGetRequest
        (bakery (self (test_world [Success (JArr [JObj [(''name'', JStr ''canonical''), (''created-on'', JStr ''soon'')]])])))
        ''http://1.2.3.4/v1/terms/canonical''
     = [Success (JArr [JObj [(''name'', JStr ''canonical''), (''created-on'', JStr ''soon'')]])]
   \<and> field [(''name'', JStr ''canonical''), (''created-on'', JStr ''soon'')] ''created-on'' = JStr ''soon''
   \<and> date_parse test_host ''soon'' = None
   \<and> showTerms test_host (JStr ''canonical'') JNull record_call
       (test_world [Success (JArr [JObj [(''name'', JStr ''canonical''), (''created-on'', JStr ''soon'')]])]) =
       Done ((test_world [Success (JArr [JObj [(''name'', JStr ''canonical''), (''created-on'', JStr ''soon'')]])])
              \<lparr>requests := [''http://1.2.3.4/v1/terms/canonical''],
               caller := [(JNull, Some \<lparr> name = JStr ''canonical'', title = JUndefined,
                    revision = JUndefined, content = JUndefined, createdAt = Date None \<rparr>)]\<rparr>)"
proof -
  have a: "sendGetRequest
        (bakery (self (test_world [Success (JArr [JObj [(''name'', JStr ''canonical''), (''created-on'', JStr ''soon'')]])])))
        ''http://1.2.3.4/v1/terms/canonical''
     = [Success (JArr (JObj [(''name'', JStr ''canonical''), (''created-on'', JStr ''soon'')] # []))]"
    by (simp add: test_answer)
  have f: "field [(''name'', JStr ''canonical''), (''created-on'', JStr ''soon'')] ''created-on'' = JStr ''soon''"
    by (simp add: field_def)
  have d: "date_parse test_host ''soon'' = None"
    by (simp add: test_host_def)
  from showTerms_unparseable_date [where h = test_host and cb = record_call, OF test_path_latest a f d]
  have "showTerms test_host (JStr ''canonical'') JNull record_call
       (test_world [Success (JArr [JObj [(''name'', JStr ''canonical''), (''created-on'', JStr ''soon'')]])]) =
       Done ((test_world [Success (JArr [JObj [(''name'', JStr ''canonical''), (''created-on'', JStr ''soon'')]])])
              \<lparr>requests := [''http://1.2.3.4/v1/terms/canonical''],
               caller := [(JNull, Some \<lparr> name = JStr ''canonical'', title = JUndefined,
                    revision = JUndefined, content = JUndefined, createdAt = Date None \<rparr>)]\<rparr>)"
    by (simp add: test_world_def record_call_def field_def)
  with a f d test_path_latest [of "[Success (JArr [JObj [(''name'', JStr ''canonical''), (''created-on'', JStr ''soon'')]])]"]
  show ?thesis by simp
qed

subsection \<open>Exactly one callback\<close>

text \<open>
  The callback is called as often as the transport invokes a continuation: not at all
  if it invokes none, twice if it invokes two.
\<close>

lemma showTerms_no_continuation:
  assumes "request_path h (self w) nm revn = Inr p"
    and "sendGetRequest (bakery (self w)) p = []"
  shows "invocations w (showTerms h nm revn record_call w) = []"
  using assms by (simp add: showTerms_issues invocations_def)

lemma showTerms_two_continuations:
  assumes "request_path h (self w) nm revn = Inr p"
    and "sendGetRequest (bakery (self w)) p = [Success (JArr []), Success (JArr [])]"
  shows "invocations w (showTerms h nm revn record_call w) = [(JNull, None), (JNull, None)]"
  using assms
  by (simp add: showTerms_issues invocations_def on_success_def handler_empty invoke_def
      record_call_def)




subsection \<open>Two runs\<close>

text \<open>
  C8. Two calls with the same name and revision on a client with the same stored URL,
  in whatever states and with whatever the transport does for other requests, hand
  the same path to the transport (or both throw before issuing one); and if the
  transport invokes the same continuations with the same responses for both, both call
  their callbacks with the same arguments and both complete or both throw.
\<close>

theorem showTerms_two_runs:
  assumes "url (self w1) = url (self w2)"
  shows "issued w1 (showTerms h nm revn record_call w1) =
           issued w2 (showTerms h nm revn record_call w2)
         \<and> ((\<forall>p. request_path h (self w1) nm revn = Inr p \<longrightarrow>
                  sendGetRequest (bakery (self w1)) p = sendGetRequest (bakery (self w2)) p)
            \<longrightarrow> invocations w1 (showTerms h nm revn record_call w1) =
                  invocations w2 (showTerms h nm revn record_call w2)
                \<and> completed (showTerms h nm revn record_call w1) =
                  completed (showTerms h nm revn record_call w2))"
proof -
  have path: "request_path h (self w1) nm revn = request_path h (self w2) nm revn"
    by (rule request_path_url [OF assms])
  then have paths: "issued w1 (showTerms h nm revn record_call w1) =
          issued w2 (showTerms h nm revn record_call w2)"
    by (simp add: showTerms_issued)
  have calls: "invocations w1 (showTerms h nm revn record_call w1) =
                  invocations w2 (showTerms h nm revn record_call w2)
                \<and> completed (showTerms h nm revn record_call w1) =
                  completed (showTerms h nm revn record_call w2)"
    if same: "\<forall>p. request_path h (self w1) nm revn = Inr p \<longrightarrow>
                  sendGetRequest (bakery (self w1)) p = sendGetRequest (bakery (self w2)) p"
  proof (cases "request_path h (self w1) nm revn")
    case (Inl e)
    with path showTerms_record_throws [of h w1 nm revn e] showTerms_record_throws [of h w2 nm revn e]
    show ?thesis by simp
  next
    case (Inr p)
    from showTerms_record [of h nm revn "sendGetRequest (bakery (self w1)) p"]
    obtain cs ok where
      r: "\<And>w q. request_path h (self w) nm revn = Inr q \<Longrightarrow>
               sendGetRequest (bakery (self w)) q = sendGetRequest (bakery (self w1)) p \<Longrightarrow>
               invocations w (showTerms h nm revn record_call w) = cs
               \<and> completed (showTerms h nm revn record_call w) = ok"
      by blast
    from Inr same have "sendGetRequest (bakery (self w2)) p = sendGetRequest (bakery (self w1)) p"
      by simp
    with Inr path r [of w1 p] r [of w2 p] show ?thesis by simp
  qed
  from paths calls show ?thesis by blast
qed

theorem showTerms_two_runs_witness:
  "url (self (test_world [Success (JArr [canonical_terms])])) = url (self later_world)
   \<and> request_path test_host (self (test_world [Success (JArr [canonical_terms])]))
        (JStr ''canonical'') (JNum 42) = Inr ''http://1.2.3.4/v1/terms/canonical?revision=42''
   \<and> sendGetRequest (bakery (self (test_world [Success (JArr [canonical_terms])])))
        ''http://1.2.3.4/v1/terms/canonical?revision=42''
      = sendGetRequest (bakery (self later_world)) ''http://1.2.3.4/v1/terms/canonical?revision=42''
   \<and> issued (test_world [Success (JArr [canonical_terms])])
        (showTerms test_host (JStr ''canonical'') (JNum 42) record_call
           (test_world [Success (JArr [canonical_terms])]))
      = issued later_world
        (showTerms test_host (JStr ''canonical'') (JNum 42) record_call later_world)
   \<and> invocations (test_world [Success (JArr [canonical_terms])])
        (showTerms test_host (JStr ''canonical'') (JNum 42) record_call
           (test_world [Success (JArr [canonical_terms])]))
      = invocations later_world
        (showTerms test_host (JStr ''canonical'') (JNum 42) record_call later_world)"
proof -
  have u: "url (self (test_world [Success (JArr [canonical_terms])])) = url (self later_world)"
    by (simp add: test_world_def later_world_def terms_def)
  have e: "sendGetRequest (bakery (self (test_world [Success (JArr [canonical_terms])])))
        ''http://1.2.3.4/v1/terms/canonical?revision=42''
      = sendGetRequest (bakery (self later_world)) ''http://1.2.3.4/v1/terms/canonical?revision=42''"
    by (simp add: test_world_def later_world_def terms_def canned_bakery_def selective_bakery_def)
  have a: "\<forall>p. request_path test_host (self (test_world [Success (JArr [canonical_terms])]))
              (JStr ''canonical'') (JNum 42) = Inr p \<longrightarrow>
            sendGetRequest (bakery (self (test_world [Success (JArr [canonical_terms])]))) p
            = sendGetRequest (bakery (self later_world)) p"
    using e by (simp add: test_path_42)
  from u e a test_path_42 [of "[Success (JArr [canonical_terms])]"]
    showTerms_two_runs [OF u, of test_host "JStr ''canonical''" "JNum 42"]
  show ?thesis by blast
qed

subsection \<open>The client is not changed\<close>

text \<open>
  C9. A call of \<open>showTerms\<close> leaves the client object as it was, its URL and its
  transport included, whether the run completes or throws; and a call that follows
  another on the same client hands the same path to the transport and calls its
  callback with the same arguments as it would have without the earlier call.
\<close>

theorem showTerms_leaves_client:
  "self (state_of (showTerms h nm revn cb w)) = self w
   \<and> url (self (state_of (showTerms h nm revn cb w))) = url (self w)
   \<and> bakery (self (state_of (showTerms h nm revn cb w))) = bakery (self w)
   \<and> issued (state_of (showTerms h nm1 revn1 record_call w0))
        (showTerms h nm2 revn2 record_call (state_of (showTerms h nm1 revn1 record_call w0)))
      = issued w0 (showTerms h nm2 revn2 record_call w0)
   \<and> invocations (state_of (showTerms h nm1 revn1 record_call w0))
        (showTerms h nm2 revn2 record_call (state_of (showTerms h nm1 revn1 record_call w0)))
      = invocations w0 (showTerms h nm2 revn2 record_call w0)"
proof -
  let ?w1 = "state_of (showTerms h nm1 revn1 record_call w0)"
  have s: "self ?w1 = self w0" by (rule showTerms_self)
  have "invocations ?w1 (showTerms h nm2 revn2 record_call ?w1) =
          invocations w0 (showTerms h nm2 revn2 record_call w0)"
  proof (cases "request_path h (self w0) nm2 revn2")
    case (Inl e)
    with s showTerms_record_throws [of h ?w1 nm2 revn2 e] showTerms_record_throws [of h w0 nm2 revn2 e]
    show ?thesis by simp
  next
    case (Inr p)
    from showTerms_record [of h nm2 revn2 "sendGetRequest (bakery (self w0)) p"]
    obtain cs ok where
      r: "\<And>w q. request_path h (self w) nm2 revn2 = Inr q \<Longrightarrow>
               sendGetRequest (bakery (self w)) q = sendGetRequest (bakery (self w0)) p \<Longrightarrow>
               invocations w (showTerms h nm2 revn2 record_call w) = cs
               \<and> completed (showTerms h nm2 revn2 record_call w) = ok"
      by blast
    from Inr s r [of ?w1 p] r [of w0 p] show ?thesis by simp
  qed
  moreover have "issued ?w1 (showTerms h nm2 revn2 record_call ?w1) =
          issued w0 (showTerms h nm2 revn2 record_call w0)"
    using s by (simp add: showTerms_issued)
  ultimately show ?thesis by (simp add: showTerms_self)
qed

subsection \<open>Falsy revisions\<close>

text \<open>
  C10. The revisions that are falsy and not the number 0 are \<open>undefined\<close>, \<open>null\<close>, the
  empty string, \<open>false\<close> and \<open>NaN\<close>; for each of them \<open>showTerms\<close> does exactly what it
  does for \<open>null\<close> and the path has no query string. For every other revision, the
  number 0 or a truthy value, the revision branch is taken: the path ends in
  \<open>?revision=\<close> and the revision as JavaScript prints it, or, where the revision cannot
  be converted to a string, the concatenation in that branch throws.
\<close>

theorem showTerms_falsy_revision:
  "((\<not> to_boolean revn \<and> revn \<noteq> JNum 0) =
      (revn \<in> {JUndefined, JNull, JStr [], JBool False, JNaN}))
   \<and> (\<not> to_boolean revn \<and> revn \<noteq> JNum 0 \<longrightarrow>
        showTerms h nm revn cb w = showTerms h nm JNull cb w
        \<and> issued w (showTerms h (JStr n) revn cb w) = [url (self w) @ ''/terms/'' @ n])
   \<and> (revn = JNum 0 \<or> to_boolean revn \<longrightarrow>
        (case to_string h revn of
           Inr printed \<Rightarrow>
             issued w (showTerms h (JStr n) revn cb w) =
               [url (self w) @ ''/terms/'' @ n @ ''?revision='' @ printed]
         | Inl e \<Rightarrow> showTerms h (JStr n) revn cb w = Thrown e w))"
proof -
  have "(\<not> to_boolean revn \<and> revn \<noteq> JNum 0) =
      (revn \<in> {JUndefined, JNull, JStr [], JBool False, JNaN})"
    by (cases revn) auto
  moreover have "request_path h c nm revn = request_path h c nm JNull"
    if "\<not> to_boolean revn \<and> revn \<noteq> JNum 0" for c
    using that by (simp add: request_path_def Let_def split: sum.splits)
  then have "\<not> to_boolean revn \<and> revn \<noteq> JNum 0 \<longrightarrow>
        showTerms h nm revn cb w = showTerms h nm JNull cb w
        \<and> issued w (showTerms h (JStr n) revn cb w) = [url (self w) @ ''/terms/'' @ n]"
    by (simp add: showTerms_issued request_path_string) (simp add: showTerms_def)
  moreover have "revn = JNum 0 \<or> to_boolean revn \<longrightarrow>
        (case to_string h revn of
           Inr printed \<Rightarrow>
             issued w (showTerms h (JStr n) revn cb w) =
               [url (self w) @ ''/terms/'' @ n @ ''?revision='' @ printed]
         | Inl e \<Rightarrow> showTerms h (JStr n) revn cb w = Thrown e w)"
  proof (cases "to_string h revn")
    case (Inl e)
    then have "revn = JNum 0 \<or> to_boolean revn \<longrightarrow>
        request_path h (self w) (JStr n) revn = Inl e"
      by (simp add: request_path_string)
    with Inl show ?thesis
      by (auto simp: only_TypeError [of e] dest: showTerms_throws)
  next
    case (Inr printed)
    then show ?thesis by (simp add: showTerms_issued request_path_string)
  qed
  ultimately show ?thesis by blast
qed

theorem showTerms_falsy_revision_witness:
  "\<not> to_boolean (JStr []) \<and> JStr [] \<noteq> JNum 0
   \<and> showTerms test_host (JStr ''canonical'') (JStr []) record_call (test_world []) =
       showTerms test_host (JStr ''canonical'') JNull record_call (test_world [])
   \<and> issued (test_world [])
        (showTerms test_host (JStr ''canonical'') (JStr []) record_call (test_world []))
      = [''http://1.2.3.4/v1/terms/canonical'']
   \<and> \<not> to_boolean JNaN \<and> JNaN \<noteq> JNum 0
   \<and> issued (test_world [])
        (showTerms test_host (JStr ''canonical'') JNaN record_call (test_world []))
      = [''http://1.2.3.4/v1/terms/canonical'']
   \<and> to_boolean (JStr ''7'')
   \<and> issued (test_world [])
        (showTerms test_host (JStr ''canonical'') (JStr ''7'') record_call (test_world []))
      = [''http://1.2.3.4/v1/terms/canonical?revision=7'']
   \<and> to_boolean (JNum 18446744073709551616)
   \<and> issued (test_world [])
        (showTerms test_host (JStr ''canonical'') (JNum 18446744073709551616) record_call (test_world []))
      = [''http://1.2.3.4/v1/terms/canonical?revision=18446744073709552000'']
   \<and> to_boolean (JObj [(''toString'', JNull)])
   \<and> showTerms test_host (JStr ''canonical'') (JObj [(''toString'', JNull)]) record_call (test_world [])
      = Thrown TypeError (test_world [])"
proof -
  have falsy: "\<not> to_boolean (JStr []) \<and> JStr [] \<noteq> JNum 0" "\<not> to_boolean JNaN \<and> JNaN \<noteq> JNum 0"
    and truthy: "to_boolean (JStr ''7'')" "to_boolean (JNum 18446744073709551616)"
      "to_boolean (JObj [(''toString'', JNull)])"
    by simp_all
  have url: "url (self (test_world [])) = ''http://1.2.3.4/v1''"
    by (simp add: test_world_def terms_def termsAPIVersion_def)
  from falsy(1)
    showTerms_falsy_revision [of "JStr []" test_host "JStr ''canonical''" record_call "test_world []" "''canonical''"]
  have empty: "showTerms test_host (JStr ''canonical'') (JStr []) record_call (test_world []) =
       showTerms test_host (JStr ''canonical'') JNull record_call (test_world [])"
    "issued (test_world [])
        (showTerms test_host (JStr ''canonical'') (JStr []) record_call (test_world []))
      = [''http://1.2.3.4/v1/terms/canonical'']"
    by (auto simp: url)
  from falsy(2)
    showTerms_falsy_revision [of JNaN test_host "JStr ''canonical''" record_call "test_world []" "''canonical''"]
  have nan: "issued (test_world [])
        (showTerms test_host (JStr ''canonical'') JNaN record_call (test_world []))
      = [''http://1.2.3.4/v1/terms/canonical'']"
    by (auto simp: url)
  from truthy(1)
    showTerms_falsy_revision [of "JStr ''7''" test_host "JStr ''canonical''" record_call "test_world []" "''canonical''"]
  have seven: "issued (test_world [])
        (showTerms test_host (JStr ''canonical'') (JStr ''7'') record_call (test_world []))
      = [''http://1.2.3.4/v1/terms/canonical?revision=7'']"
    by (auto simp: url)
  from truthy(2)
    showTerms_falsy_revision [of "JNum 18446744073709551616" test_host "JStr ''canonical''" record_call "test_world []" "''canonical''"]
  have large: "issued (test_world [])
        (showTerms test_host (JStr ''canonical'') (JNum 18446744073709551616) record_call (test_world []))
      = [''http://1.2.3.4/v1/terms/canonical?revision=18446744073709552000'']"
    by (auto simp: url number_to_string_def test_host_def)
  from truthy(3)
    showTerms_falsy_revision [of "JObj [(''toString'', JNull)]" test_host "JStr ''canonical''" record_call "test_world []" "''canonical''"]
  have object: "showTerms test_host (JStr ''canonical'') (JObj [(''toString'', JNull)]) record_call (test_world [])
      = Thrown TypeError (test_world [])"
    by auto
  from falsy truthy empty nan seven large object show ?thesis by blast
qed

end
